theory Spec2Isabelle
  imports Complex_Main "HOL-Library.Sublist"
begin

section \<open>JavaScript values shared by the models\<close>

text \<open>
  A thrown value is an \<open>Error\<close> object; only its \<open>message\<close> is ever read by the
  code modelled here.
\<close>

datatype js_error = Error (message: string)

text \<open>
  The values a configuration option or a variable can hold. \<open>JUndefined\<close> is also
  what reading an absent property gives. \<open>JFun\<close> is a function object, told apart by
  a name; the models never look inside one.
\<close>

datatype jsval
  = JUndefined
  | JNull
  | JBool bool
  | JNum int
  | JStr string
  | JArr "jsval list"
  | JFun string

text \<open>\<open>typeof v === 'string'\<close>.\<close>

fun is_string :: "jsval \<Rightarrow> bool" where
  "is_string (JStr s) = True"
| "is_string v = False"

text \<open>JavaScript truthiness of a value.\<close>

fun truthy :: "jsval \<Rightarrow> bool" where
  "truthy JUndefined = False"
| "truthy JNull = False"
| "truthy (JBool b) = b"
| "truthy (JNum n) = (n \<noteq> 0)"
| "truthy (JStr s) = (s \<noteq> [])"
| "truthy (JArr xs) = True"
| "truthy (JFun f) = True"

section \<open>venia-ui: \<open>CartPage/PriceSummary/discountSummary.js\<close>\<close>

text \<open>
  The shape of the \<open>DiscountSummaryFragment\<close>: each discount has an \<open>amount\<close> with a
  \<open>currency\<close> and a \<open>value\<close>, and a \<open>label\<close>. The numeric type \<open>'n\<close> stands for
  the JavaScript number held in \<open>value\<close>; \<open>getDiscount\<close> only adds such numbers,
  starting from \<open>0\<close>.
\<close>

record 'n money =
  currency :: string
  amount_value :: 'n

record 'n discount =
  amount :: "'n money"
  label :: string

text \<open>
  The argument of \<open>getDiscount\<close>: the caller passes \<open>props.data\<close>, which is
  \<open>undefined\<close>, \<open>null\<close> ("discounts from data can be null") or an array.
\<close>

datatype 'n discounts_arg
  = DUndefined
  | DNull
  | DArray "'n discount list"

definition DEFAULT_AMOUNT :: "'n::zero money" where
  "DEFAULT_AMOUNT = \<lparr>currency = ''USD'', amount_value = 0\<rparr>"

text \<open>
  \<^verbatim>\<open>discounts.reduce((acc, discount) => acc + discount.amount.value, 0)\<close>:
  a left-to-right fold from the accumulator \<open>0\<close>.
\<close>

fun reduce_discounts :: "'n::{plus} \<Rightarrow> 'n discount list \<Rightarrow> 'n" where
  "reduce_discounts acc [] = acc"
| "reduce_discounts acc (d # ds) = reduce_discounts (acc + amount_value (amount d)) ds"

text \<open>
  \<^verbatim>\<open>const getDiscount = (discounts = []) => { ... }\<close>: the default parameter
  replaces \<open>undefined\<close> by the empty array; \<open>null\<close> is falsy; an array is truthy and
  its \<open>length\<close> decides.
\<close>

fun default_discounts :: "'n discounts_arg \<Rightarrow> 'n discounts_arg" where
  "default_discounts DUndefined = DArray []"
| "default_discounts v = v"

fun getDiscount_body :: "'n::{plus,zero} discounts_arg \<Rightarrow> 'n money" where
  "getDiscount_body DUndefined = DEFAULT_AMOUNT"
| "getDiscount_body DNull = DEFAULT_AMOUNT"
| "getDiscount_body (DArray []) = DEFAULT_AMOUNT"
| "getDiscount_body (DArray (d # ds)) =
     \<lparr>currency = currency (amount d),
      amount_value = reduce_discounts 0 (d # ds)\<rparr>"

definition getDiscount :: "'n::{plus,zero} discounts_arg \<Rightarrow> 'n money" where
  "getDiscount discounts = getDiscount_body (default_discounts discounts)"

section \<open>peregrine: \<open>talons/AuthModal/useAuthModal.js\<close>\<close>

text \<open>\<open>Array.prototype.includes\<close> on an array of strings.\<close>

fun array_includes :: "'a list \<Rightarrow> 'a \<Rightarrow> bool" where
  "array_includes [] v = False"
| "array_includes (x # xs) v = (x = v \<or> array_includes xs v)"

definition UNAUTHED_ONLY :: "string list" where
  "UNAUTHED_ONLY = [''CREATE_ACCOUNT'', ''FORGOT_PASSWORD'', ''SIGN_IN'']"

text \<open>
  \<open>currentUser\<close> comes from the user context; the hook reads only its \<open>id\<close>
  property, which is \<open>JUndefined\<close> when the object has none.
\<close>

record current_user =
  user_id :: jsval

text \<open>The callbacks the hook can invoke, as they appear in a trace of calls.\<close>

datatype auth_call
  = ShowMyAccount
  | ShowMainMenu
  | CloseDrawer
  | ResetStore
  | SignOut

text \<open>
  The body of the effect:
  \<^verbatim>\<open>if (currentUser && currentUser.id && UNAUTHED_ONLY.includes(view)) { showMyAccount(); }\<close>
  \<open>None\<close> is a \<open>currentUser\<close> that is \<open>null\<close> or \<open>undefined\<close>. The result is the
  list of callbacks invoked, in order.
\<close>

definition useAuthModal_effect :: "current_user option \<Rightarrow> string \<Rightarrow> auth_call list" where
  "useAuthModal_effect currentUser view =
     (case currentUser of
        None \<Rightarrow> []
      | Some u \<Rightarrow>
          if truthy (user_id u) \<and> array_includes UNAUTHED_ONLY view
          then [ShowMyAccount]
          else [])"

definition handleClose :: "auth_call list" where
  "handleClose = [ShowMainMenu, CloseDrawer]"

definition handleCreateAccount :: "auth_call list" where
  "handleCreateAccount = [ShowMyAccount]"

definition handleSignOut :: "auth_call list" where
  "handleSignOut = [ResetStore, SignOut]"

section \<open>peregrine: \<open>talons/CreateAccount/useCreateAccount.js\<close>\<close>

subsection \<open>The \<open>errors\<close> array\<close>

datatype graphql_error = GraphQLError (gql_message: string)

text \<open>
  The \<open>error\<close> of a mutation result is \<open>undefined\<close> or an \<open>ApolloError\<close>, whose
  \<open>graphQLErrors\<close> is an array (empty for a network error).
\<close>

record apollo_error =
  graphQLErrors :: "graphql_error list"
  networkError :: "js_error option"

text \<open>\<open>xs[0]\<close>: the first element, or \<open>undefined\<close> (\<open>None\<close>) when there is none.\<close>

fun index0 :: "'a list \<Rightarrow> 'a option" where
  "index0 [] = None"
| "index0 (x # xs) = Some x"

text \<open>\<open>errors.push(v)\<close>.\<close>

definition push :: "'a list \<Rightarrow> 'a \<Rightarrow> 'a list" where
  "push xs v = xs @ [v]"

definition useCreateAccount_errors ::
  "apollo_error option \<Rightarrow> apollo_error option \<Rightarrow> graphql_error option list" where
  "useCreateAccount_errors createAccountError signInError =
     (let errors = [];
          errors = (case createAccountError of
                      None \<Rightarrow> errors
                    | Some e \<Rightarrow> push errors (index0 (graphQLErrors e)));
          errors = (case signInError of
                      None \<Rightarrow> errors
                    | Some e \<Rightarrow> push errors (index0 (graphQLErrors e)))
      in errors)"

subsection \<open>\<open>handleSubmit\<close>\<close>

text \<open>The form values; \<open>formValues.customer\<close> is \<open>None\<close> when the property is absent.\<close>

record customer_input =
  email :: string
  firstname :: string
  lastname :: string

record form_values =
  customer :: "customer_input option"
  password :: string

datatype create_variables = CreateVariables string string string string

datatype signin_variables = SignInVariables string string

text \<open>
  The response of the create-account mutation, read as
  \<^verbatim>\<open>const { data: { createCustomer: createAccountData } } = await createAccount(...)\<close>
  and then \<open>createAccountData.customer\<close>. A property that is \<open>null\<close> or \<open>undefined\<close>
  is \<open>None\<close>.
\<close>

datatype customer_data = CustomerData string

record create_customer_output =
  output_customer :: customer_data

record create_data =
  createCustomer :: "create_customer_output option"

record create_response =
  create_data :: "create_data option"

text \<open>
  The response of the sign-in mutation, read as
  \<^verbatim>\<open>signInResponse && signInResponse.data.generateCustomerToken.token\<close>.
\<close>

record customer_token =
  token :: "string option"

record signin_data =
  generateCustomerToken :: "customer_token option"

record signin_response =
  signin_data :: "signin_data option"

text \<open>
  What a call that is not awaited hands back, as far as errors go: a plain value or a
  promise that fulfils (\<open>Fulfils\<close>; the handler uses neither), or a promise that
  rejects later.
\<close>

datatype settles
  = Fulfils
  | Rejects js_error

text \<open>
  Everything \<open>handleSubmit\<close> closes over, and \<open>process.env.NODE_ENV\<close>.

  \<open>createAccount\<close>, \<open>signIn\<close>, \<open>removeCart\<close> and \<open>getCartDetails\<close> are awaited
  inside the \<open>try\<close> block: \<open>Inl\<close> is a throw of the call or the rejection of the
  promise it returns, and either surfaces at the \<open>await\<close>.

  \<open>userActions.getDetails.receive\<close>, \<open>setToken\<close> and \<open>onSubmit\<close> are called
  without \<open>await\<close>: \<open>Inl\<close> is a throw of the call itself, and \<open>Inr\<close> says how what
  it returns settles, which the handler never observes.
\<close>

record submit_env =
  createAccount :: "create_variables \<Rightarrow> js_error + create_response"
  receive :: "customer_data \<Rightarrow> js_error + settles"
  signIn :: "signin_variables \<Rightarrow> js_error + signin_response option"
  setToken :: "string option \<Rightarrow> js_error + settles"
  removeCart :: "js_error + unit"
  getCartDetails :: "bool \<Rightarrow> js_error + unit"
  onSubmit :: "js_error + settles"
  NODE_ENV :: string

datatype submit_call
  = CallCreateAccount create_variables
  | CallReceive customer_data
  | CallSignIn signin_variables
  | CallSetToken "string option"
  | CallRemoveCart
  | CallGetCartDetails bool
  | CallOnSubmit

text \<open>
  The state \<open>handleSubmit\<close> acts on: the \<open>isSubmitting\<close> flag of \<open>useState\<close>, what
  \<open>console.error\<close> has printed, the calls made so far, and the rejections of promises
  nobody awaits (they reach no \<open>catch\<close>).
\<close>

record submit_state =
  isSubmitting :: bool
  console_error :: "js_error list"
  calls :: "submit_call list"
  unhandled_rejections :: "js_error list"

text \<open>
  Reading a property of \<open>undefined\<close> or \<open>null\<close> throws a \<open>TypeError\<close>; the
  argument names the property.
\<close>

definition TypeError :: "string \<Rightarrow> js_error" where
  "TypeError prop = Error (''TypeError: Cannot read property '' @ prop)"

type_synonym 'a action = "submit_state \<Rightarrow> (js_error + 'a) \<times> submit_state"

text \<open>Sequencing inside the \<open>try\<close> block: the first throw ends the block.\<close>

definition and_then :: "'a action \<Rightarrow> ('a \<Rightarrow> 'b action) \<Rightarrow> 'b action" where
  "and_then m f s =
     (case m s of
        (Inl e, s') \<Rightarrow> (Inl e, s')
      | (Inr x, s') \<Rightarrow> f x s')"

text \<open>An expression that only computes: it yields a value or throws.\<close>

definition eval_expr :: "js_error + 'a \<Rightarrow> 'a action" where
  "eval_expr r s = (r, s)"

text \<open>\<open>await f(...)\<close>: the call is recorded; a throw or a rejection ends the block.\<close>

definition invoke :: "submit_call \<Rightarrow> js_error + 'a \<Rightarrow> 'a action" where
  "invoke c r s = (r, s\<lparr>calls := calls s @ [c]\<rparr>)"

text \<open>
  \<open>f(...)\<close> with no \<open>await\<close>: the call is recorded; only a throw of the call itself
  ends the block. A promise that rejects later is left unhandled and the block goes on.
\<close>

definition invoke_unawaited :: "submit_call \<Rightarrow> js_error + settles \<Rightarrow> unit action" where
  "invoke_unawaited c r s =
     (let s1 = s\<lparr>calls := calls s @ [c]\<rparr>
      in case r of
           Inl e \<Rightarrow> (Inl e, s1)
         | Inr Fulfils \<Rightarrow> (Inr (), s1)
         | Inr (Rejects e) \<Rightarrow>
             (Inr (), s1\<lparr>unhandled_rejections := unhandled_rejections s1 @ [e]\<rparr>))"

definition read_customer :: "form_values \<Rightarrow> js_error + customer_input" where
  "read_customer formValues =
     (case customer formValues of
        None \<Rightarrow> Inl (TypeError ''email'')
      | Some c \<Rightarrow> Inr c)"

definition read_createAccountData :: "create_response \<Rightarrow> js_error + create_customer_output option" where
  "read_createAccountData response =
     (case create_data response of
        None \<Rightarrow> Inl (TypeError ''createCustomer'')
      | Some d \<Rightarrow> Inr (createCustomer d))"

definition read_output_customer :: "create_customer_output option \<Rightarrow> js_error + customer_data" where
  "read_output_customer createAccountData =
     (case createAccountData of
        None \<Rightarrow> Inl (TypeError ''customer'')
      | Some d \<Rightarrow> Inr (output_customer d))"

definition read_token :: "signin_response option \<Rightarrow> js_error + string option" where
  "read_token signInResponse =
     (case signInResponse of
        None \<Rightarrow> Inr None
      | Some r \<Rightarrow>
          (case signin_data r of
             None \<Rightarrow> Inl (TypeError ''generateCustomerToken'')
           | Some d \<Rightarrow>
               (case generateCustomerToken d of
                  None \<Rightarrow> Inl (TypeError ''token'')
                | Some t \<Rightarrow> Inr (token t))))"

text \<open>The \<open>try\<close> block of \<open>handleSubmit\<close>, statement by statement.\<close>

definition try_block :: "submit_env \<Rightarrow> form_values \<Rightarrow> unit action" where
  "try_block env formValues =
     and_then (eval_expr (read_customer formValues)) (\<lambda>c.
     and_then (invoke
        (CallCreateAccount (CreateVariables (email c) (firstname c) (lastname c) (password formValues)))
        (createAccount env (CreateVariables (email c) (firstname c) (lastname c) (password formValues)))) (\<lambda>response.
     and_then (eval_expr (read_createAccountData response)) (\<lambda>createAccountData.
     and_then (eval_expr (read_output_customer createAccountData)) (\<lambda>cust.
     and_then (invoke_unawaited (CallReceive cust) (receive env cust)) (\<lambda>_.
     and_then (invoke
        (CallSignIn (SignInVariables (email c) (password formValues)))
        (signIn env (SignInVariables (email c) (password formValues)))) (\<lambda>signInResponse.
     and_then (eval_expr (read_token signInResponse)) (\<lambda>tok.
     and_then (invoke_unawaited (CallSetToken tok) (setToken env tok)) (\<lambda>_.
     and_then (invoke CallRemoveCart (removeCart env)) (\<lambda>_.
     and_then (invoke (CallGetCartDetails True) (getCartDetails env True)) (\<lambda>_.
     invoke_unawaited CallOnSubmit (onSubmit env)))))))))))"

text \<open>The \<open>catch\<close> block: log in development only, then clear the flag.\<close>

definition catch_block :: "submit_env \<Rightarrow> js_error \<Rightarrow> submit_state \<Rightarrow> submit_state" where
  "catch_block env error s =
     (let s1 = (if NODE_ENV env = ''development''
                then s\<lparr>console_error := console_error s @ [error]\<rparr>
                else s)
      in s1\<lparr>isSubmitting := False\<rparr>)"

text \<open>
  \<open>handleSubmit\<close>: the first component is how the promise it returns settles
  (\<open>Inl\<close> would be a rejection reaching the caller), the second the state afterwards.
\<close>

definition handleSubmit :: "submit_env \<Rightarrow> form_values \<Rightarrow> unit action" where
  "handleSubmit env formValues s =
     (case try_block env formValues (s\<lparr>isSubmitting := True\<rparr>) of
        (Inr u, s') \<Rightarrow> (Inr (), s')
      | (Inl error, s') \<Rightarrow> (Inr (), catch_block env error s'))"

text \<open>\<open>isDisabled: isSubmitting\<close> in the object the hook returns.\<close>

definition isDisabled :: "submit_state \<Rightarrow> bool" where
  "isDisabled s = isSubmitting s"

section \<open>Image optimization middleware: \<open>addImgOptMiddleware\<close>\<close>

text \<open>
  The module keeps three variables: \<open>cache\<close> (the \<open>middleware\<close> export of
  \<open>apicache\<close>), \<open>hastily\<close> (the module) and the string \<open>missingDeps\<close>.
  A variable never assigned is \<open>None\<close>.

  Calling \<open>cache(cacheExpires, toggle, {debug})\<close> returns a middleware function or
  throws; so does \<open>hastily.imageopto()\<close>. The third argument of a \<open>cache_fn\<close> is
  the value of \<open>debug\<close> in the options object.
\<close>

type_synonym cache_fn = "jsval \<Rightarrow> jsval \<Rightarrow> jsval \<Rightarrow> js_error + jsval"

record apicache_module =
  middleware :: "cache_fn option"

record hastily_module =
  hasSupportedExtension :: jsval
  imageopto :: "(js_error + jsval) option"

record imgopt_module =
  cache :: "cache_fn option"
  hastily :: "hastily_module option"
  missingDeps :: string

definition newline :: char where
  "newline = CHR 0x0A"

text \<open>\<open>e.message.split('\n')[0]\<close>: the message up to its first line break.\<close>

definition first_line :: "string \<Rightarrow> string" where
  "first_line msg = takeWhile (\<lambda>c. c \<noteq> newline) msg"

definition markDepInvalid :: "string \<Rightarrow> js_error \<Rightarrow> imgopt_module \<Rightarrow> imgopt_module" where
  "markDepInvalid dep e m =
     m\<lparr>missingDeps :=
         missingDeps m @ ''- '' @ dep @ '': Reason: '' @ first_line (message e) @ [newline]\<rparr>"

text \<open>
  Loading the module: the two \<open>require\<close> calls, each in its own \<open>try\<close>. The
  arguments are what the two \<open>require\<close> calls do in this environment.
\<close>

definition load_module ::
  "js_error + apicache_module \<Rightarrow> js_error + hastily_module \<Rightarrow> imgopt_module" where
  "load_module require_apicache require_hastily =
     (let m = \<lparr>cache = None, hastily = None, missingDeps = []\<rparr>;
          m = (case require_apicache of
                 Inr a \<Rightarrow> m\<lparr>cache := middleware a\<rparr>
               | Inl e \<Rightarrow> markDepInvalid ''apicache'' e m);
          m = (case require_hastily of
                 Inr h \<Rightarrow> m\<lparr>hastily := Some h\<rparr>
               | Inl e \<Rightarrow> markDepInvalid ''hastily'' e m)
      in m)"

record imgopt_config =
  cacheExpires :: jsval
  cacheDebug :: jsval

text \<open>
  What the function acts on besides the module variables: the middleware mounted on
  \<open>app\<close>, in order, and what \<open>console.warn\<close> has printed.
\<close>

record imgopt_world =
  module_vars :: imgopt_module
  app :: "jsval list"
  console_warn :: "string list"

text \<open>
  \<open>cache(cacheExpires, hastily.hasSupportedExtension, { debug: cacheDebug })\<close>: the
  arguments are evaluated first, so an unset \<open>hastily\<close> throws before the call; then
  an unset \<open>cache\<close> is not a function.
\<close>

definition call_cache :: "imgopt_module \<Rightarrow> imgopt_config \<Rightarrow> js_error + jsval" where
  "call_cache m config =
     (case hastily m of
        None \<Rightarrow> Inl (TypeError ''hasSupportedExtension'')
      | Some h \<Rightarrow>
          (case cache m of
             None \<Rightarrow> Inl (Error ''TypeError: cache is not a function'')
           | Some f \<Rightarrow> f (cacheExpires config) (hasSupportedExtension h) (cacheDebug config)))"

text \<open>\<open>hastily.imageopto()\<close>.\<close>

definition call_imageopto :: "imgopt_module \<Rightarrow> js_error + jsval" where
  "call_imageopto m =
     (case hastily m of
        None \<Rightarrow> Inl (TypeError ''imageopto'')
      | Some h \<Rightarrow>
          (case imageopto h of
             None \<Rightarrow> Inl (Error ''TypeError: hastily.imageopto is not a function'')
           | Some r \<Rightarrow> r))"

definition warning_text :: "string \<Rightarrow> string" where
  "warning_text deps =
     ''Cannot add image optimization middleware due to dependencies that are not installed or are not compatible with this environment:''
     @ [newline] @ deps @ [newline]
     @ ''Images will be served uncompressed.'' @ [newline] @ [newline]
     @ ''If possible, install additional tools to build NodeJS native dependencies:'' @ [newline]
     @ ''https://github.com/nodejs/node-gyp#installation''"

text \<open>\<open>cacheMiddleware\<close> and \<open>imageopto\<close> stay \<open>undefined\<close> when their call threw.\<close>

definition result_or_undefined :: "js_error + jsval \<Rightarrow> jsval" where
  "result_or_undefined r = (case r of Inl e \<Rightarrow> JUndefined | Inr v \<Rightarrow> v)"

definition mark_if_thrown :: "string \<Rightarrow> js_error + jsval \<Rightarrow> imgopt_module \<Rightarrow> imgopt_module" where
  "mark_if_thrown dep r m = (case r of Inl e \<Rightarrow> markDepInvalid dep e m | Inr v \<Rightarrow> m)"

text \<open>
  \<open>addImgOptMiddleware(app, config)\<close>. The first component of the result is what the
  call throws, if anything: with \<open>config\<close> an object and every thrown value an
  \<open>Error\<close> carrying a message, each statement outside the two \<open>try\<close> blocks
  completes.
\<close>

definition addImgOptMiddleware :: "imgopt_config \<Rightarrow> imgopt_world \<Rightarrow> js_error option \<times> imgopt_world" where
  "addImgOptMiddleware config w =
     (let m0 = module_vars w;
          r1 = call_cache m0 config;
          cacheMiddleware = result_or_undefined r1;
          m1 = mark_if_thrown ''apicache'' r1 m0;
          r2 = call_imageopto m1;
          imageopto_mw = result_or_undefined r2;
          m2 = mark_if_thrown ''hastily'' r2 m1
      in if missingDeps m2 \<noteq> []
         then (None, w\<lparr>module_vars := m2,
                        console_warn := console_warn w @ [warning_text (missingDeps m2)]\<rparr>)
         else (None, w\<lparr>module_vars := m2,
                        app := app w @ [cacheMiddleware, imageopto_mw]\<rparr>))"

text \<open>A process that loads the module and then calls the function once.\<close>

definition load_and_add ::
  "js_error + apicache_module \<Rightarrow> js_error + hastily_module \<Rightarrow> imgopt_config \<Rightarrow> jsval list
     \<Rightarrow> js_error option \<times> imgopt_world" where
  "load_and_add require_apicache require_hastily config app0 =
     addImgOptMiddleware config
       \<lparr>module_vars = load_module require_apicache require_hastily,
        app = app0, console_warn = []\<rparr>"

section \<open>Build plugin: \<open>ServiceWorkerPlugin\<close>\<close>

text \<open>
  The configuration object handed to the constructor, with the options the plugin
  recognises. \<open>mode\<close> and \<open>paths.output\<close> hold any value (they are what the
  constructor validates); \<open>paths\<close> is \<open>None\<close> when the object has no such property;
  the two flags are \<open>None\<close> when absent.
\<close>

record sw_paths =
  output_path :: jsval

record sw_config =
  mode :: jsval
  paths :: "sw_paths option"
  runtimeCacheAssetPath :: jsval
  enableServiceWorkerDebugging :: "bool option"
  injectManifest :: "bool option"
  injectManifestConfig :: "(string \<rightharpoonup> jsval) option"

text \<open>Reading \<open>paths.output\<close> off a configuration: \<open>undefined\<close> when \<open>paths\<close> is absent.\<close>

definition paths_output :: "sw_config \<Rightarrow> jsval" where
  "paths_output config = (case paths config of None \<Rightarrow> JUndefined | Some ps \<Rightarrow> output_path ps)"

record sw_plugin =
  plugin_config :: sw_config

text \<open>
  Modelled from the spec: the constructor of \<open>ServiceWorkerPlugin\<close>, whose source file is
  not among the sources (only its test is). "Validation: fails fast if \<open>mode\<close> or
  \<open>paths.output\<close> are absent or non-string." The two messages are the ones the test
  expects, \<open>mode\<close> being checked first.
\<close>

definition ServiceWorkerPlugin :: "sw_config \<Rightarrow> js_error + sw_plugin" where
  "ServiceWorkerPlugin config =
     (if \<not> is_string (mode config) then Inl (Error ''mode must be of type string'')
      else if \<not> is_string (paths_output config) then Inl (Error ''paths.output must be of type string'')
      else Inr \<lparr>plugin_config = config\<rparr>)"

text \<open>
  What the plugin takes from its surroundings: the content hash computed by the
  \<open>fileHash\<close> utility (mocked in the test, absent from the sources) and the glob patterns
  of the assets to precache.
\<close>

record sw_externals =
  fileHash :: string
  globPatterns :: "string list"

text \<open>
  What \<open>apply\<close> does to the build, as a trace: each library plugin constructed with its
  options and applied to the compiler \<open>'c\<close>, and each console warning.
\<close>

datatype 'c sw_event
  = GenerateSW "string \<rightharpoonup> jsval" 'c
  | InjectManifest "string \<rightharpoonup> jsval" 'c
  | WriteFileWebpackPlugin string bool 'c
  | ConsoleWarn string

text \<open>
  Modelled from the spec: the name of the generated service worker, "named with a
  content hash suffix"; the test expects \<open>sw.<hash>.js\<close>.
\<close>

definition serviceWorkerFileName :: "sw_externals \<Rightarrow> string" where
  "serviceWorkerFileName ext = ''sw.'' @ fileHash ext @ ''.js''"

text \<open>
  Modelled from the spec: the options of the precache generation, which the source of
  \<open>ServiceWorkerPlugin\<close> would build; the test expects \<open>globDirectory\<close> (the output
  path), \<open>globPatterns\<close> and \<open>swDest\<close>.
\<close>

definition workbox_config :: "sw_externals \<Rightarrow> sw_plugin \<Rightarrow> (string \<rightharpoonup> jsval)" where
  "workbox_config ext p =
     [''globDirectory'' \<mapsto> paths_output (plugin_config p),
      ''globPatterns'' \<mapsto> JArr (map JStr (globPatterns ext)),
      ''swDest'' \<mapsto> JStr (serviceWorkerFileName ext)]"

text \<open>\<open>Object.assign(target, source)\<close>; an absent source changes nothing.\<close>

definition object_assign :: "(string \<rightharpoonup> jsval) \<Rightarrow> (string \<rightharpoonup> jsval) option \<Rightarrow> (string \<rightharpoonup> jsval)" where
  "object_assign target source = (case source of None \<Rightarrow> target | Some src \<Rightarrow> target ++ src)"

text \<open>
  Modelled from the spec: the choice of strategy inside \<open>ServiceWorkerPlugin\<close> (source
  absent). "If \<open>injectManifest\<close> is true, delegates to a manifest-injection strategy
  against a caller-supplied source file instead of full generation." The test expects
  the options of \<open>InjectManifest\<close> to contain \<open>injectManifestConfig\<close>.
\<close>

definition applyWorkbox :: "sw_externals \<Rightarrow> sw_plugin \<Rightarrow> 'c \<Rightarrow> 'c sw_event list" where
  "applyWorkbox ext p compiler =
     (if injectManifest (plugin_config p) = Some True
      then [InjectManifest
              (object_assign (workbox_config ext p) (injectManifestConfig (plugin_config p)))
              compiler]
      else [GenerateSW (workbox_config ext p) compiler])"

definition dev_warning :: string where
  "dev_warning = ''Emitting no ServiceWorker in development mode.''"

text \<open>
  Modelled from the spec: \<open>ServiceWorkerPlugin.apply\<close> (source absent). "In
  \<open>production\<close> mode, always generates a precaching service worker (full asset manifest)
  named with a content hash suffix. In \<open>development\<close> mode, emits nothing by default
  (logs a warning) unless \<open>enableServiceWorkerDebugging\<close> is true, in which case it
  generates the service worker and additionally writes it to disk for inspection."
  The spec recognises no other mode and says nothing of one: the result is \<open>None\<close>
  there. The write-file plugin's options are the ones the test expects: a pattern made
  of the file name followed by \<open>$\<close>, and \<open>log: true\<close>.
\<close>

definition sw_apply :: "sw_externals \<Rightarrow> sw_plugin \<Rightarrow> 'c \<Rightarrow> 'c sw_event list option" where
  "sw_apply ext p compiler =
     (if mode (plugin_config p) = JStr ''production'' then
        Some (applyWorkbox ext p compiler)
      else if mode (plugin_config p) = JStr ''development'' then
        (if enableServiceWorkerDebugging (plugin_config p) = Some True
         then Some (applyWorkbox ext p compiler
                    @ [WriteFileWebpackPlugin (serviceWorkerFileName ext @ ''$'') True compiler])
         else Some [ConsoleWarn dev_warning])
      else None)"

text \<open>Constructing the plugin and calling its \<open>apply\<close>, as the tests do.\<close>

definition construct_and_apply ::
  "sw_externals \<Rightarrow> sw_config \<Rightarrow> 'c \<Rightarrow> js_error + 'c sw_event list option" where
  "construct_and_apply ext config compiler =
     (case ServiceWorkerPlugin config of
        Inl e \<Rightarrow> Inl e
      | Inr p \<Rightarrow> Inr (sw_apply ext p compiler))"

text \<open>Which events of a trace invoke which library plugin.\<close>

fun is_generate :: "'c sw_event \<Rightarrow> bool" where
  "is_generate (GenerateSW opts c) = True"
| "is_generate ev = False"

fun is_inject :: "'c sw_event \<Rightarrow> bool" where
  "is_inject (InjectManifest opts c) = True"
| "is_inject ev = False"

fun is_write_file :: "'c sw_event \<Rightarrow> bool" where
  "is_write_file (WriteFileWebpackPlugin pattern lg c) = True"
| "is_write_file ev = False"

section \<open>Concrete inputs\<close>

text \<open>The configurations of the plugin's test file, with its fake file hash.\<close>

definition FAKE_FILE_HASH :: string where
  "FAKE_FILE_HASH = ''1234''"

definition test_externals :: sw_externals where
  "test_externals = \<lparr>fileHash = FAKE_FILE_HASH, globPatterns = [''**/*.{gif,jpg,png,svg}'']\<rparr>"

definition test_config ::
  "string \<Rightarrow> bool option \<Rightarrow> bool option \<Rightarrow> (string \<rightharpoonup> jsval) option \<Rightarrow> sw_config" where
  "test_config m debugging inject inject_config =
     \<lparr>mode = JStr m,
      paths = Some \<lparr>output_path = JStr ''path/to/assets''\<rparr>,
      runtimeCacheAssetPath = JStr ''https://location/of/assets'',
      enableServiceWorkerDebugging = debugging,
      injectManifest = inject,
      injectManifestConfig = inject_config\<rparr>"

definition empty_config :: sw_config where
  "empty_config =
     \<lparr>mode = JUndefined, paths = None, runtimeCacheAssetPath = JUndefined,
      enableServiceWorkerDebugging = None, injectManifest = None,
      injectManifestConfig = None\<rparr>"

definition mode_only_config :: sw_config where
  "mode_only_config = empty_config\<lparr>mode := JStr ''development''\<rparr>"

text \<open>A form submission, and environments in which one step fails.\<close>

definition example_form :: form_values where
  "example_form =
     \<lparr>customer = Some \<lparr>email = ''roni@example.com'', firstname = ''Roni'', lastname = ''Costello''\<rparr>,
      password = ''hunter2''\<rparr>"

definition example_state :: submit_state where
  "example_state =
     \<lparr>isSubmitting = False, console_error = [], calls = [], unhandled_rejections = []\<rparr>"

definition rejecting_env :: "string \<Rightarrow> submit_env" where
  "rejecting_env node_env =
     \<lparr>createAccount = (\<lambda>vars. Inl (Error ''Network error'')),
      receive = (\<lambda>c. Inr Fulfils),
      signIn = (\<lambda>vars. Inr None),
      setToken = (\<lambda>t. Inr Fulfils),
      removeCart = Inr (),
      getCartDetails = (\<lambda>force. Inr ()),
      onSubmit = Inr Fulfils,
      NODE_ENV = node_env\<rparr>"

definition succeeding_env :: "string \<Rightarrow> submit_env" where
  "succeeding_env node_env =
     \<lparr>createAccount = (\<lambda>vars. Inr \<lparr>create_data = Some \<lparr>createCustomer =
          Some \<lparr>output_customer = CustomerData ''roni@example.com''\<rparr>\<rparr>\<rparr>),
      receive = (\<lambda>c. Inr Fulfils),
      signIn = (\<lambda>vars. Inr (Some \<lparr>signin_data = Some \<lparr>generateCustomerToken =
          Some \<lparr>token = Some ''abc''\<rparr>\<rparr>\<rparr>)),
      setToken = (\<lambda>t. Inr Fulfils),
      removeCart = Inr (),
      getCartDetails = (\<lambda>force. Inr ()),
      onSubmit = Inr Fulfils,
      NODE_ENV = node_env\<rparr>"

text \<open>\<open>onSubmit\<close> throws when called.\<close>

definition onSubmit_throwing_env :: "string \<Rightarrow> submit_env" where
  "onSubmit_throwing_env node_env =
     (succeeding_env node_env)\<lparr>onSubmit := Inl (Error ''onSubmit failed'')\<rparr>"

text \<open>\<open>onSubmit\<close> is an async function that fails: it returns a promise that rejects.\<close>

definition onSubmit_rejecting_env :: "string \<Rightarrow> submit_env" where
  "onSubmit_rejecting_env node_env =
     (succeeding_env node_env)\<lparr>onSubmit := Inr (Rejects (Error ''onSubmit failed''))\<rparr>"

text \<open>Two outcomes of \<open>require\<close>, and a configuration of the middleware.\<close>

definition apicache_present :: "js_error + apicache_module" where
  "apicache_present =
     Inr \<lparr>middleware = Some (\<lambda>expires toggle opts. Inr (JFun ''cacheMiddleware''))\<rparr>"

definition hastily_absent :: "js_error + hastily_module" where
  "hastily_absent = Inl (Error ''Cannot find module hastily'')"

definition hastily_present :: "js_error + hastily_module" where
  "hastily_present =
     Inr \<lparr>hasSupportedExtension = JFun ''hasSupportedExtension'',
          imageopto = Some (Inr (JFun ''imageopto''))\<rparr>"

definition example_imgopt_config :: imgopt_config where
  "example_imgopt_config = \<lparr>cacheExpires = JStr ''5 minutes'', cacheDebug = JBool False\<rparr>"

text \<open>The heading \<open>markDepInvalid\<close> gives the entry of a dependency.\<close>

definition dep_header :: "string \<Rightarrow> string" where
  "dep_header dep = ''- '' @ dep @ '': Reason: ''"

section \<open>Properties of \<open>getDiscount\<close>\<close>

lemma reduce_discounts_sum:
  fixes acc :: "'n::monoid_add"
  shows "reduce_discounts acc ds = acc + sum_list (map (\<lambda>d. amount_value (amount d)) ds)"
  by (induction ds arbitrary: acc) (simp_all add: add.assoc)

lemma reduce_discounts_foldl:
  "reduce_discounts acc ds = foldl (+) acc (map (\<lambda>d. amount_value (amount d)) ds)"
  by (induction ds arbitrary: acc) simp_all

text \<open>
  Claim C9. \<open>getDiscount\<close> returns a result for every argument: for \<open>undefined\<close>,
  \<open>null\<close> and the empty array it is the default amount \<open>{currency: 'USD', value: 0}\<close>;
  for a non-empty array it is the currency of the first discount together with the sum
  of the \<open>amount.value\<close> fields of all the discounts. The sum is taken from \<open>0\<close>,
  left to right, whatever the addition \<open>+\<close> of the numbers is; where addition is
  associative with unit \<open>0\<close> it is the sum of the list of values.
\<close>

theorem getDiscount_total:
  fixes d :: "'n::monoid_add discount" and e :: "'a::{plus,zero} discount"
  shows "getDiscount (DUndefined :: 'a discounts_arg) = \<lparr>currency = ''USD'', amount_value = 0\<rparr>
       \<and> getDiscount (DNull :: 'a discounts_arg) = \<lparr>currency = ''USD'', amount_value = 0\<rparr>
       \<and> getDiscount (DArray ([] :: 'a discount list)) = \<lparr>currency = ''USD'', amount_value = 0\<rparr>
       \<and> getDiscount (DArray (e # es)) =
           \<lparr>currency = currency (amount e),
            amount_value = foldl (+) 0 (map (\<lambda>x. amount_value (amount x)) (e # es))\<rparr>
       \<and> getDiscount (DArray (d # ds)) =
           \<lparr>currency = currency (amount d),
            amount_value = sum_list (map (\<lambda>x. amount_value (amount x)) (d # ds))\<rparr>"
proof -
  have "reduce_discounts 0 (d # ds) = sum_list (map (\<lambda>x. amount_value (amount x)) (d # ds))"
    by (simp only: reduce_discounts_sum add_0_left)
  moreover
  have "reduce_discounts 0 (e # es) = foldl (+) 0 (map (\<lambda>x. amount_value (amount x)) (e # es))"
    by (rule reduce_discounts_foldl)
  ultimately show ?thesis
    by (simp add: getDiscount_def DEFAULT_AMOUNT_def)
qed

section \<open>Properties of \<open>useAuthModal\<close>\<close>

text \<open>
  Claim C10. The effect of \<open>useAuthModal\<close> invokes \<open>showMyAccount\<close>, and nothing
  else, exactly when there is a current user whose \<open>id\<close> is set (truthy, as the code
  tests it) and the view is one of \<open>CREATE_ACCOUNT\<close>, \<open>FORGOT_PASSWORD\<close> and
  \<open>SIGN_IN\<close>; for any other view, \<open>MENU\<close> among them, and for a user with no id or no
  user at all, it invokes nothing.
\<close>

theorem useAuthModal_effect_redirects:
  "useAuthModal_effect currentUser view =
     (if (\<exists>u. currentUser = Some u \<and> truthy (user_id u))
         \<and> (view = ''CREATE_ACCOUNT'' \<or> view = ''FORGOT_PASSWORD'' \<or> view = ''SIGN_IN'')
      then [ShowMyAccount] else [])"
  by (cases currentUser) (auto simp: useAuthModal_effect_def UNAUTHED_ONLY_def)

theorem useAuthModal_effect_redirects_witness:
  "useAuthModal_effect (Some \<lparr>user_id = JNum 7\<rparr>) ''SIGN_IN'' = [ShowMyAccount]
   \<and> useAuthModal_effect (Some \<lparr>user_id = JNum 7\<rparr>) ''MENU'' = []
   \<and> useAuthModal_effect None ''SIGN_IN'' = []
   \<and> useAuthModal_effect (Some \<lparr>user_id = JUndefined\<rparr>) ''CREATE_ACCOUNT'' = []"
  using useAuthModal_effect_redirects [of "Some \<lparr>user_id = JNum 7\<rparr>" "''SIGN_IN''"]
        useAuthModal_effect_redirects [of "Some \<lparr>user_id = JNum 7\<rparr>" "''MENU''"]
        useAuthModal_effect_redirects [of None "''SIGN_IN''"]
        useAuthModal_effect_redirects [of "Some \<lparr>user_id = JUndefined\<rparr>" "''CREATE_ACCOUNT''"]
  by simp

section \<open>Properties of \<open>useCreateAccount\<close>\<close>

subsection \<open>The \<open>errors\<close> array\<close>

text \<open>
  Where every reported error carries a GraphQL error, the array is what the form
  expects: the first GraphQL error of the create-account mutation when it reported an
  error, then the first GraphQL error of the sign-in mutation when it reported an error,
  and nothing when neither did.
\<close>

lemma useCreateAccount_errors_with_graphql_errors:
  assumes "graphQLErrors ce = g # gs" and "graphQLErrors se = h # hs"
  shows "useCreateAccount_errors None None = []
       \<and> useCreateAccount_errors (Some ce) None = [Some g]
       \<and> useCreateAccount_errors None (Some se) = [Some h]
       \<and> useCreateAccount_errors (Some ce) (Some se) = [Some g, Some h]"
  using assms by (simp add: useCreateAccount_errors_def push_def)

text \<open>
  Claim C8. The \<open>errors\<close> array is to hold the first GraphQL error of the
  create-account mutation exactly when that mutation reported an error. The code pushes
  \<open>createAccountError.graphQLErrors[0]\<close> without looking at the array: when the
  mutation fails with a network error, whose \<open>graphQLErrors\<close> is empty, the array
  returned to the form holds \<open>undefined\<close> and no GraphQL error.
\<close>

theorem useCreateAccount_errors_network_error:
  "useCreateAccount_errors
     (Some \<lparr>graphQLErrors = [], networkError = Some (Error ''Failed to fetch'')\<rparr>) None
   = [None]"
  by (simp add: useCreateAccount_errors_def push_def)

subsection \<open>\<open>handleSubmit\<close>\<close>

lemmas try_block_simps =
  try_block_def and_then_def eval_expr_def invoke_def invoke_unawaited_def read_customer_def
  read_createAccountData_def read_output_customer_def read_token_def

lemmas example_simps =
  succeeding_env_def example_form_def example_state_def

lemma try_block_rejecting:
  "try_block (rejecting_env ne) example_form (example_state\<lparr>isSubmitting := True\<rparr>)
    = (Inl (Error ''Network error''),
       \<lparr>isSubmitting = True, console_error = [],
        calls = [CallCreateAccount
                   (CreateVariables ''roni@example.com'' ''Roni'' ''Costello'' ''hunter2'')],
        unhandled_rejections = []\<rparr>)"
  by (simp add: try_block_simps rejecting_env_def example_form_def example_state_def)

lemma try_block_onSubmit_throwing:
  "try_block (onSubmit_throwing_env ne) example_form (example_state\<lparr>isSubmitting := True\<rparr>)
    = (Inl (Error ''onSubmit failed''),
       \<lparr>isSubmitting = True, console_error = [],
        calls = [CallCreateAccount
                   (CreateVariables ''roni@example.com'' ''Roni'' ''Costello'' ''hunter2''),
                 CallReceive (CustomerData ''roni@example.com''),
                 CallSignIn (SignInVariables ''roni@example.com'' ''hunter2''),
                 CallSetToken (Some ''abc''), CallRemoveCart, CallGetCartDetails True,
                 CallOnSubmit],
        unhandled_rejections = []\<rparr>)"
  by (simp add: try_block_simps onSubmit_throwing_env_def example_simps)

lemma try_block_onSubmit_rejecting:
  "try_block (onSubmit_rejecting_env ne) example_form (example_state\<lparr>isSubmitting := True\<rparr>)
    = (Inr (),
       \<lparr>isSubmitting = True, console_error = [],
        calls = [CallCreateAccount
                   (CreateVariables ''roni@example.com'' ''Roni'' ''Costello'' ''hunter2''),
                 CallReceive (CustomerData ''roni@example.com''),
                 CallSignIn (SignInVariables ''roni@example.com'' ''hunter2''),
                 CallSetToken (Some ''abc''), CallRemoveCart, CallGetCartDetails True,
                 CallOnSubmit],
        unhandled_rejections = [Error ''onSubmit failed'']\<rparr>)"
  by (simp add: try_block_simps onSubmit_rejecting_env_def example_simps)

lemma and_then_Inr:
  "and_then m f s = (Inr u, s'') \<Longrightarrow> \<exists>x s'. m s = (Inr x, s') \<and> f x s' = (Inr u, s'')"
  by (auto simp: and_then_def split: prod.splits sum.splits)

lemma invoke_Inr: "invoke c r s = (Inr x, s') \<Longrightarrow> \<not> isl r"
  by (simp add: invoke_def)

lemma invoke_unawaited_Inr: "invoke_unawaited c r s = (Inr x, s') \<Longrightarrow> \<not> isl r"
  by (cases r) (simp_all add: invoke_unawaited_def Let_def)

text \<open>
  The \<open>try\<close> block runs to its end only if no awaited call threw or rejected and no
  call that is not awaited threw.
\<close>

lemma try_block_completes:
  assumes "try_block env formValues s = (Inr u, s')"
  shows "(\<exists>v. \<not> isl (createAccount env v))
       \<and> (\<exists>c. \<not> isl (receive env c))
       \<and> (\<exists>v. \<not> isl (signIn env v))
       \<and> (\<exists>t. \<not> isl (setToken env t))
       \<and> \<not> isl (removeCart env)
       \<and> \<not> isl (getCartDetails env True)
       \<and> \<not> isl (onSubmit env)"
  using assms unfolding try_block_def
  by (auto dest!: and_then_Inr invoke_Inr invoke_unawaited_Inr)

text \<open>
  Claim C7, as the code has it. The promise \<open>handleSubmit\<close> returns never rejects:
  whatever ends the \<open>try\<close> block is caught. That is an error thrown by a statement of
  the block, or the rejection of a call the block awaits (account creation, sign-in,
  removing the cart, fetching the cart details). When the block ends so, the submitting
  flag is cleared, so \<open>isDisabled\<close> is false afterwards, and the error is printed with
  \<open>console.error\<close> when \<open>NODE_ENV\<close> is \<open>development\<close>, and only then. In particular
  the flag ends cleared whenever an awaited call is bound to throw or reject, or a call
  made without \<open>await\<close> (\<open>receive\<close>, \<open>setToken\<close>, \<open>onSubmit\<close>) is bound to throw,
  since then that step or an earlier one ends the block.
\<close>

theorem handleSubmit_catches:
  "fst (handleSubmit env formValues s) = Inr ()
   \<and> (\<forall>e s'. try_block env formValues (s\<lparr>isSubmitting := True\<rparr>) = (Inl e, s') \<longrightarrow>
        \<not> isDisabled (snd (handleSubmit env formValues s))
        \<and> console_error (snd (handleSubmit env formValues s)) =
            console_error s' @ (if NODE_ENV env = ''development'' then [e] else []))
   \<and> ((\<forall>v. isl (createAccount env v)) \<or> (\<forall>c. isl (receive env c))
        \<or> (\<forall>v. isl (signIn env v)) \<or> (\<forall>t. isl (setToken env t))
        \<or> isl (removeCart env) \<or> isl (getCartDetails env True) \<or> isl (onSubmit env) \<longrightarrow>
        \<not> isDisabled (snd (handleSubmit env formValues s)))"
proof (intro conjI allI impI)
  show "fst (handleSubmit env formValues s) = Inr ()"
    by (auto simp: handleSubmit_def split: prod.splits sum.splits)
next
  fix e s'
  assume t: "try_block env formValues (s\<lparr>isSubmitting := True\<rparr>) = (Inl e, s')"
  then show "\<not> isDisabled (snd (handleSubmit env formValues s))"
    by (simp add: handleSubmit_def catch_block_def isDisabled_def)
  from t show "console_error (snd (handleSubmit env formValues s)) =
            console_error s' @ (if NODE_ENV env = ''development'' then [e] else [])"
    by (simp add: handleSubmit_def catch_block_def)
next
  assume fails: "(\<forall>v. isl (createAccount env v)) \<or> (\<forall>c. isl (receive env c))
        \<or> (\<forall>v. isl (signIn env v)) \<or> (\<forall>t. isl (setToken env t))
        \<or> isl (removeCart env) \<or> isl (getCartDetails env True) \<or> isl (onSubmit env)"
  obtain r s' where t: "try_block env formValues (s\<lparr>isSubmitting := True\<rparr>) = (r, s')"
    by (cases "try_block env formValues (s\<lparr>isSubmitting := True\<rparr>)")
  have "isl r"
  proof (cases r)
    case (Inr u)
    with t try_block_completes [of env formValues "s\<lparr>isSubmitting := True\<rparr>" u s'] fails
    show ?thesis by blast
  qed simp
  then obtain e where "r = Inl e" by (cases r) auto
  with t show "\<not> isDisabled (snd (handleSubmit env formValues s))"
    by (simp add: handleSubmit_def catch_block_def isDisabled_def)
qed

theorem handleSubmit_catches_witness:
  "fst (handleSubmit (onSubmit_throwing_env ''development'') example_form example_state) = Inr ()
   \<and> \<not> isDisabled (snd (handleSubmit (onSubmit_throwing_env ''development'')
                          example_form example_state))
   \<and> console_error (snd (handleSubmit (onSubmit_throwing_env ''development'')
                          example_form example_state))
       = [Error ''onSubmit failed'']
   \<and> \<not> isDisabled (snd (handleSubmit (rejecting_env ''production'') example_form example_state))"
proof -
  have dev: "NODE_ENV (onSubmit_throwing_env ''development'') = ''development''"
    by (simp add: onSubmit_throwing_env_def succeeding_env_def)
  from handleSubmit_catches [of "onSubmit_throwing_env ''development''" example_form example_state]
    try_block_onSubmit_throwing [of "''development''"] dev
  have 1: "fst (handleSubmit (onSubmit_throwing_env ''development'') example_form example_state)
            = Inr ()"
    and 2: "\<not> isDisabled (snd (handleSubmit (onSubmit_throwing_env ''development'')
                                 example_form example_state))"
    and 3: "console_error (snd (handleSubmit (onSubmit_throwing_env ''development'')
                                 example_form example_state))
            = [Error ''onSubmit failed'']"
    by simp_all
  have rej: "\<forall>v. isl (createAccount (rejecting_env ''production'') v)"
    by (simp add: rejecting_env_def)
  from handleSubmit_catches [of "rejecting_env ''production''" example_form example_state] rej
  have 4: "\<not> isDisabled (snd (handleSubmit (rejecting_env ''production'')
                                 example_form example_state))"
    by blast
  from 1 2 3 4 show ?thesis by simp
qed

text \<open>
  The claim as the spec words it fails in two ways. Outside development nothing is
  printed: the create-account mutation rejects, and \<open>console.error\<close> is not called.
  And an error of the \<open>onSubmit\<close> callback that comes as a rejected promise is not
  caught, since the callback is not awaited: the block runs to its end, nothing is
  printed even in development, and \<open>isDisabled\<close> stays true.
\<close>

theorem handleSubmit_counterexample:
  "fst (try_block (rejecting_env ''production'') example_form
          (example_state\<lparr>isSubmitting := True\<rparr>))
     = Inl (Error ''Network error'')
   \<and> console_error (snd (handleSubmit (rejecting_env ''production'') example_form example_state))
     = []
   \<and> onSubmit (onSubmit_rejecting_env ''development'') = Inr (Rejects (Error ''onSubmit failed''))
   \<and> isDisabled (snd (handleSubmit (onSubmit_rejecting_env ''development'')
                        example_form example_state))
   \<and> console_error (snd (handleSubmit (onSubmit_rejecting_env ''development'')
                           example_form example_state)) = []
   \<and> unhandled_rejections (snd (handleSubmit (onSubmit_rejecting_env ''development'')
                                  example_form example_state))
       = [Error ''onSubmit failed'']"
proof -
  have "fst (try_block (rejecting_env ''production'') example_form
          (example_state\<lparr>isSubmitting := True\<rparr>)) = Inl (Error ''Network error'')"
    by (simp add: try_block_rejecting)
  moreover
  have "console_error (snd (handleSubmit (rejecting_env ''production'')
                              example_form example_state)) = []"
    by (simp add: try_block_rejecting handleSubmit_def catch_block_def)
       (simp add: rejecting_env_def)
  moreover
  have "onSubmit (onSubmit_rejecting_env ''development'')
          = Inr (Rejects (Error ''onSubmit failed''))"
    by (simp add: onSubmit_rejecting_env_def)
  moreover
  have "handleSubmit (onSubmit_rejecting_env ''development'') example_form example_state
          = try_block (onSubmit_rejecting_env ''development'') example_form
              (example_state\<lparr>isSubmitting := True\<rparr>)"
    by (simp add: handleSubmit_def try_block_onSubmit_rejecting)
  then have "isDisabled (snd (handleSubmit (onSubmit_rejecting_env ''development'')
                                example_form example_state))"
    and "console_error (snd (handleSubmit (onSubmit_rejecting_env ''development'')
                           example_form example_state)) = []"
    and "unhandled_rejections (snd (handleSubmit (onSubmit_rejecting_env ''development'')
                                  example_form example_state))
           = [Error ''onSubmit failed'']"
    by (simp_all add: try_block_onSubmit_rejecting isDisabled_def)
  ultimately show ?thesis by blast
qed

section \<open>Properties of \<open>addImgOptMiddleware\<close>\<close>

lemma sublist_append_left_mono: "sublist xs ys \<Longrightarrow> sublist xs (ps @ ys)"
  by (metis sublist_append)

lemma sublist_append_right_mono: "sublist xs ys \<Longrightarrow> sublist xs (ys @ ss)"
  by (metis sublist_append)

lemma markDepInvalid_names: "sublist (dep_header dep) (missingDeps (markDepInvalid dep e m))"
proof -
  have "missingDeps (markDepInvalid dep e m) =
          missingDeps m @ dep_header dep @ (first_line (message e) @ [newline])"
    by (simp add: markDepInvalid_def dep_header_def)
  then show ?thesis
    by (simp only: sublist_appendI)
qed

lemma markDepInvalid_keeps: "sublist t (missingDeps m) \<Longrightarrow> sublist t (missingDeps (markDepInvalid dep e m))"
  by (simp add: markDepInvalid_def sublist_append_right_mono)

lemma markDepInvalid_nonempty: "missingDeps (markDepInvalid dep e m) \<noteq> []"
  by (simp add: markDepInvalid_def)

lemma markDepInvalid_vars [simp]:
  "cache (markDepInvalid dep e m) = cache m" "hastily (markDepInvalid dep e m) = hastily m"
  by (simp_all add: markDepInvalid_def)

lemma mark_if_thrown_vars [simp]:
  "cache (mark_if_thrown dep r m) = cache m" "hastily (mark_if_thrown dep r m) = hastily m"
  by (simp_all add: mark_if_thrown_def split: sum.splits)

lemma mark_if_thrown_keeps: "sublist t (missingDeps m) \<Longrightarrow> sublist t (missingDeps (mark_if_thrown dep r m))"
  by (simp add: mark_if_thrown_def markDepInvalid_keeps split: sum.splits)

lemma mark_if_thrown_nonempty: "missingDeps m \<noteq> [] \<Longrightarrow> missingDeps (mark_if_thrown dep r m) \<noteq> []"
  by (simp add: mark_if_thrown_def markDepInvalid_def split: sum.splits)

lemma mark_if_thrown_Inl: "isl r \<Longrightarrow> sublist (dep_header dep) (missingDeps (mark_if_thrown dep r m))"
  by (cases r) (simp_all add: mark_if_thrown_def markDepInvalid_names)

lemma mark_if_thrown_Inl_nonempty: "isl r \<Longrightarrow> missingDeps (mark_if_thrown dep r m) \<noteq> []"
  by (cases r) (simp_all add: mark_if_thrown_def markDepInvalid_nonempty)

lemma mark_if_thrown_Inr: "\<not> isl r \<Longrightarrow> mark_if_thrown dep r m = m"
  by (cases r) (simp_all add: mark_if_thrown_def)

lemma call_imageopto_cong: "hastily m' = hastily m \<Longrightarrow> call_imageopto m' = call_imageopto m"
  by (simp add: call_imageopto_def)

lemma warning_text_deps: "sublist t deps \<Longrightarrow> sublist t (warning_text deps)"
  unfolding warning_text_def
  by (intro sublist_append_left_mono sublist_append_right_mono)

lemma warning_text_uncompressed: "sublist ''Images will be served uncompressed.'' (warning_text deps)"
  unfolding warning_text_def
  by (intro sublist_append_left_mono sublist_append_right_mono) (rule sublist_order.order_refl)

text \<open>General: what the function does from any module state.\<close>

lemma addImgOptMiddleware_warns:
  assumes "missingDeps (module_vars w) \<noteq> [] \<or> isl (call_cache (module_vars w) config) \<or> isl (call_imageopto (module_vars w))"
  shows "fst (addImgOptMiddleware config w) = None"
    and "app (snd (addImgOptMiddleware config w)) = app w"
    and "\<exists>msg. console_warn (snd (addImgOptMiddleware config w)) = console_warn w @ [msg]
          \<and> sublist ''Images will be served uncompressed.'' msg
          \<and> (\<forall>t. sublist t (missingDeps (module_vars w)) \<longrightarrow> sublist t msg)
          \<and> (isl (call_cache (module_vars w) config) \<longrightarrow> sublist ''- apicache: Reason: '' msg)
          \<and> (isl (call_imageopto (module_vars w)) \<longrightarrow> sublist ''- hastily: Reason: '' msg)"
proof -
  define m0 where "m0 = module_vars w"
  define r1 where "r1 = call_cache m0 config"
  define m1 where "m1 = mark_if_thrown ''apicache'' r1 m0"
  define r2 where "r2 = call_imageopto m1"
  define m2 where "m2 = mark_if_thrown ''hastily'' r2 m1"
  have r2_eq: "r2 = call_imageopto m0"
    unfolding r2_def m1_def by (rule call_imageopto_cong) simp
  have "missingDeps m0 \<noteq> [] \<or> isl r1 \<or> isl r2"
    using assms unfolding r2_eq r1_def m0_def by simp
  then have "missingDeps m1 \<noteq> [] \<or> isl r2"
    unfolding m1_def using mark_if_thrown_nonempty mark_if_thrown_Inl_nonempty by blast
  then have nonempty: "missingDeps m2 \<noteq> []"
    unfolding m2_def using mark_if_thrown_nonempty mark_if_thrown_Inl_nonempty by blast
  have res: "addImgOptMiddleware config w =
      (None, w\<lparr>module_vars := m2, console_warn := console_warn w @ [warning_text (missingDeps m2)]\<rparr>)"
    using nonempty unfolding addImgOptMiddleware_def Let_def m2_def r2_def m1_def r1_def m0_def
    by simp
  show "fst (addImgOptMiddleware config w) = None" by (simp add: res)
  show "app (snd (addImgOptMiddleware config w)) = app w" by (simp add: res)
  have a: "isl r1 \<Longrightarrow> sublist ''- apicache: Reason: '' (missingDeps m2)"
    unfolding m2_def m1_def using mark_if_thrown_Inl [of r1 "''apicache''" m0]
    by (auto simp: dep_header_def intro: mark_if_thrown_keeps)
  have h: "isl r2 \<Longrightarrow> sublist ''- hastily: Reason: '' (missingDeps m2)"
    unfolding m2_def using mark_if_thrown_Inl [of r2 "''hastily''" m1] by (simp add: dep_header_def)
  have k: "sublist t (missingDeps m0) \<Longrightarrow> sublist t (missingDeps m2)" for t
    unfolding m2_def m1_def by (intro mark_if_thrown_keeps)
  show "\<exists>msg. console_warn (snd (addImgOptMiddleware config w)) = console_warn w @ [msg]
          \<and> sublist ''Images will be served uncompressed.'' msg
          \<and> (\<forall>t. sublist t (missingDeps (module_vars w)) \<longrightarrow> sublist t msg)
          \<and> (isl (call_cache (module_vars w) config) \<longrightarrow> sublist ''- apicache: Reason: '' msg)
          \<and> (isl (call_imageopto (module_vars w)) \<longrightarrow> sublist ''- hastily: Reason: '' msg)"
    using a h k warning_text_uncompressed [of "missingDeps m2"]
    unfolding r1_def r2_eq m0_def
    by (intro exI [of _ "warning_text (missingDeps m2)"]) (auto simp: res intro: warning_text_deps)
qed

lemma addImgOptMiddleware_mounts:
  assumes "missingDeps (module_vars w) = []"
    and "call_cache (module_vars w) config = Inr cm"
    and "call_imageopto (module_vars w) = Inr io"
  shows "addImgOptMiddleware config w = (None, w\<lparr>module_vars := module_vars w, app := app w @ [cm, io]\<rparr>)"
  using assms
  by (simp add: addImgOptMiddleware_def Let_def mark_if_thrown_def result_or_undefined_def)

lemma load_module_apicache:
  "isl ra \<Longrightarrow> sublist ''- apicache: Reason: '' (missingDeps (load_module ra rh))"
  using markDepInvalid_names [of "''apicache''"]
  by (cases ra; cases rh)
     (simp_all add: load_module_def Let_def dep_header_def markDepInvalid_keeps)

lemma load_module_hastily:
  "isl rh \<Longrightarrow> sublist ''- hastily: Reason: '' (missingDeps (load_module ra rh))"
  using markDepInvalid_names [of "''hastily''"]
  by (cases ra; cases rh)
     (simp_all add: load_module_def Let_def dep_header_def)

lemma load_module_failed_nonempty:
  "isl ra \<or> isl rh \<Longrightarrow> missingDeps (load_module ra rh) \<noteq> []"
  by (cases ra; cases rh) (simp_all add: load_module_def Let_def markDepInvalid_def)

lemma load_module_clean:
  "\<not> isl ra \<Longrightarrow> \<not> isl rh \<Longrightarrow> missingDeps (load_module ra rh) = []"
  by (cases ra; cases rh) (simp_all add: load_module_def Let_def)

text \<open>
  Claim C6. After the module is loaded, \<open>addImgOptMiddleware\<close> never throws. If
  \<open>apicache\<close> or \<open>hastily\<close> failed to load, or the call of \<open>cache\<close> or of
  \<open>hastily.imageopto\<close> threw, nothing is mounted on the app and one warning is printed;
  the warning says that images will be served uncompressed and has an entry for each
  dependency that failed. When both loaded and both calls returned, the two middlewares
  they returned are mounted, in that order, and nothing is printed.
\<close>

theorem addImgOptMiddleware_degrades:
  "(isl ra \<or> isl rh \<or> isl (call_cache (load_module ra rh) config)
      \<or> isl (call_imageopto (load_module ra rh)) \<longrightarrow>
      fst (load_and_add ra rh config app0) = None
      \<and> app (snd (load_and_add ra rh config app0)) = app0
      \<and> (\<exists>msg. console_warn (snd (load_and_add ra rh config app0)) = [msg]
            \<and> sublist ''Images will be served uncompressed.'' msg
            \<and> (isl ra \<or> isl (call_cache (load_module ra rh) config)
                 \<longrightarrow> sublist ''- apicache: Reason: '' msg)
            \<and> (isl rh \<or> isl (call_imageopto (load_module ra rh))
                 \<longrightarrow> sublist ''- hastily: Reason: '' msg)))
   \<and> (\<forall>cm io. \<not> isl ra \<and> \<not> isl rh
         \<and> call_cache (load_module ra rh) config = Inr cm
         \<and> call_imageopto (load_module ra rh) = Inr io \<longrightarrow>
         fst (load_and_add ra rh config app0) = None
         \<and> app (snd (load_and_add ra rh config app0)) = app0 @ [cm, io]
         \<and> console_warn (snd (load_and_add ra rh config app0)) = [])"
proof (intro conjI impI allI)
  define w where "w = \<lparr>module_vars = load_module ra rh, app = app0, console_warn = []\<rparr>"
  have run: "load_and_add ra rh config app0 = addImgOptMiddleware config w"
    by (simp add: load_and_add_def w_def)
  have mv: "module_vars w = load_module ra rh" and aw: "app w = app0" and cw: "console_warn w = []"
    by (simp_all add: w_def)
  {
    assume fail: "isl ra \<or> isl rh \<or> isl (call_cache (load_module ra rh) config)
      \<or> isl (call_imageopto (load_module ra rh))"
    then have pre: "missingDeps (module_vars w) \<noteq> [] \<or> isl (call_cache (module_vars w) config)
        \<or> isl (call_imageopto (module_vars w))"
      unfolding mv using load_module_failed_nonempty [of ra rh] by blast
    show "fst (load_and_add ra rh config app0) = None"
      unfolding run by (rule addImgOptMiddleware_warns(1) [OF pre])
    show "app (snd (load_and_add ra rh config app0)) = app0"
      unfolding run using addImgOptMiddleware_warns(2) [OF pre] aw by simp
    from addImgOptMiddleware_warns(3) [OF pre] obtain msg where
      m1: "console_warn (snd (addImgOptMiddleware config w)) = console_warn w @ [msg]"
      and m2: "sublist ''Images will be served uncompressed.'' msg"
      and m3: "\<And>t. sublist t (missingDeps (module_vars w)) \<Longrightarrow> sublist t msg"
      and m4: "isl (call_cache (module_vars w) config) \<Longrightarrow> sublist ''- apicache: Reason: '' msg"
      and m5: "isl (call_imageopto (module_vars w)) \<Longrightarrow> sublist ''- hastily: Reason: '' msg"
      by blast
    have a: "isl ra \<or> isl (call_cache (load_module ra rh) config)
                 \<longrightarrow> sublist ''- apicache: Reason: '' msg"
      using m3 [OF load_module_apicache [of ra rh, unfolded mv [symmetric]]] m4
      unfolding mv by blast
    have h: "isl rh \<or> isl (call_imageopto (load_module ra rh))
                 \<longrightarrow> sublist ''- hastily: Reason: '' msg"
      using m3 [OF load_module_hastily [of rh ra, unfolded mv [symmetric]]] m5
      unfolding mv by blast
    show "\<exists>msg. console_warn (snd (load_and_add ra rh config app0)) = [msg]
            \<and> sublist ''Images will be served uncompressed.'' msg
            \<and> (isl ra \<or> isl (call_cache (load_module ra rh) config)
                 \<longrightarrow> sublist ''- apicache: Reason: '' msg)
            \<and> (isl rh \<or> isl (call_imageopto (load_module ra rh))
                 \<longrightarrow> sublist ''- hastily: Reason: '' msg)"
      unfolding run using m1 m2 a h cw by (intro exI [of _ msg]) simp
  }
  {
    fix cm io
    assume ok: "\<not> isl ra \<and> \<not> isl rh
         \<and> call_cache (load_module ra rh) config = Inr cm
         \<and> call_imageopto (load_module ra rh) = Inr io"
    have clean: "missingDeps (module_vars w) = []"
      unfolding mv using ok load_module_clean by blast
    have res: "addImgOptMiddleware config w
        = (None, w\<lparr>module_vars := module_vars w, app := app w @ [cm, io]\<rparr>)"
      using addImgOptMiddleware_mounts [OF clean, of config cm io] ok unfolding mv by blast
    show "fst (load_and_add ra rh config app0) = None"
      unfolding run res by simp
    show "app (snd (load_and_add ra rh config app0)) = app0 @ [cm, io]"
      unfolding run res by (simp add: aw)
    show "console_warn (snd (load_and_add ra rh config app0)) = []"
      unfolding run res by (simp add: cw)
  }
qed

theorem addImgOptMiddleware_degrades_witness:
  "app (snd (load_and_add apicache_present hastily_absent example_imgopt_config [])) = []
   \<and> (\<exists>msg. console_warn (snd (load_and_add apicache_present hastily_absent
                                   example_imgopt_config [])) = [msg]
        \<and> sublist ''Images will be served uncompressed.'' msg
        \<and> sublist ''- hastily: Reason: '' msg)
   \<and> app (snd (load_and_add apicache_present hastily_present example_imgopt_config []))
      = [JFun ''cacheMiddleware'', JFun ''imageopto'']"
proof -
  have bad: "isl hastily_absent"
    by (simp add: hastily_absent_def)
  have good: "\<not> isl apicache_present \<and> \<not> isl hastily_present
      \<and> call_cache (load_module apicache_present hastily_present) example_imgopt_config
          = Inr (JFun ''cacheMiddleware'')
      \<and> call_imageopto (load_module apicache_present hastily_present)
          = Inr (JFun ''imageopto'')"
    by (simp add: apicache_present_def hastily_present_def load_module_def call_cache_def
          call_imageopto_def Let_def)
  from addImgOptMiddleware_degrades
         [of apicache_present hastily_absent example_imgopt_config "[]"] bad
  have 1: "app (snd (load_and_add apicache_present hastily_absent example_imgopt_config [])) = []"
    and 2: "\<exists>msg. console_warn (snd (load_and_add apicache_present hastily_absent
                                       example_imgopt_config [])) = [msg]
        \<and> sublist ''Images will be served uncompressed.'' msg
        \<and> sublist ''- hastily: Reason: '' msg"
    by blast+
  from addImgOptMiddleware_degrades
         [of apicache_present hastily_present example_imgopt_config "[]"] good
  have 3: "app (snd (load_and_add apicache_present hastily_present example_imgopt_config []))
      = [] @ [JFun ''cacheMiddleware'', JFun ''imageopto'']"
    by blast
  from 1 2 3 show ?thesis by simp
qed

section \<open>Properties of \<open>ServiceWorkerPlugin\<close>\<close>

lemma workbox_config_swDest:
  "workbox_config ext p ''swDest'' = Some (JStr (''sw.'' @ fileHash ext @ ''.js''))"
  by (simp add: workbox_config_def serviceWorkerFileName_def)

lemma workbox_config_globDirectory:
  "workbox_config ext p ''globDirectory'' = Some (paths_output (plugin_config p))"
  by (simp add: workbox_config_def)

lemma test_config_simps [simp]:
  "mode (test_config m d i c) = JStr m"
  "paths_output (test_config m d i c) = JStr ''path/to/assets''"
  "enableServiceWorkerDebugging (test_config m d i c) = d"
  "injectManifest (test_config m d i c) = i"
  "injectManifestConfig (test_config m d i c) = c"
  by (simp_all add: test_config_def paths_output_def)

lemma test_config_constructs:
  "ServiceWorkerPlugin (test_config m d i c) = Inr \<lparr>plugin_config = test_config m d i c\<rparr>"
  by (simp add: ServiceWorkerPlugin_def)

text \<open>
  Claim C1. Constructing the plugin throws whenever \<open>mode\<close> is absent or not a string,
  and whenever \<open>paths.output\<close> is absent or not a string; when both are strings the
  construction succeeds, and \<open>apply\<close> can be called on the plugin it yields.
\<close>

theorem ServiceWorkerPlugin_validates:
  "(\<not> is_string (mode config) \<or> \<not> is_string (paths_output config)
      \<longrightarrow> (\<exists>e. ServiceWorkerPlugin config = Inl e))
   \<and> (is_string (mode config) \<and> is_string (paths_output config)
      \<longrightarrow> ServiceWorkerPlugin config = Inr \<lparr>plugin_config = config\<rparr>
          \<and> (\<exists>r. construct_and_apply ext config compiler = Inr r))"
  by (simp add: ServiceWorkerPlugin_def construct_and_apply_def)

theorem ServiceWorkerPlugin_validates_witness:
  "(\<exists>e. ServiceWorkerPlugin empty_config = Inl e)
   \<and> (\<exists>e. ServiceWorkerPlugin mode_only_config = Inl e)
   \<and> ServiceWorkerPlugin (test_config ''development'' None None None)
       = Inr \<lparr>plugin_config = test_config ''development'' None None None\<rparr>"
proof -
  let ?c3 = "test_config ''development'' None None None"
  have h1: "\<not> is_string (mode empty_config) \<or> \<not> is_string (paths_output empty_config)"
    by (simp add: empty_config_def)
  have h2: "\<not> is_string (mode mode_only_config) \<or> \<not> is_string (paths_output mode_only_config)"
    by (simp add: mode_only_config_def empty_config_def paths_output_def)
  have h3: "is_string (mode ?c3) \<and> is_string (paths_output ?c3)"
    by simp
  from ServiceWorkerPlugin_validates [of empty_config test_externals "()"] h1
  have 1: "\<exists>e. ServiceWorkerPlugin empty_config = Inl e" by blast
  from ServiceWorkerPlugin_validates [of mode_only_config test_externals "()"] h2
  have 2: "\<exists>e. ServiceWorkerPlugin mode_only_config = Inl e" by blast
  from ServiceWorkerPlugin_validates [of ?c3 test_externals "()"] h3
  have 3: "ServiceWorkerPlugin ?c3 = Inr \<lparr>plugin_config = ?c3\<rparr>" by blast
  from 1 2 3 show ?thesis by blast
qed

text \<open>
  Claim C2. In \<open>production\<close> mode, with \<open>injectManifest\<close> not true, \<open>apply\<close> does one
  thing: it applies \<open>GenerateSW\<close> with the destination \<open>sw.<hash>.js\<close> over the
  configured output directory. The write-file plugin is not used.
\<close>

theorem production_generates:
  assumes "mode (plugin_config p) = JStr ''production''"
    and "injectManifest (plugin_config p) \<noteq> Some True"
  shows "\<exists>evs opts. sw_apply ext p compiler = Some evs
          \<and> evs = [GenerateSW opts compiler]
          \<and> opts ''swDest'' = Some (JStr (''sw.'' @ fileHash ext @ ''.js''))
          \<and> opts ''globDirectory'' = Some (paths_output (plugin_config p))
          \<and> \<not> list_ex is_write_file evs"
  using assms
  by (intro exI [of _ "[GenerateSW (workbox_config ext p) compiler]"]
            exI [of _ "workbox_config ext p"])
     (simp add: sw_apply_def applyWorkbox_def workbox_config_swDest workbox_config_globDirectory)

theorem production_generates_witness:
  "ServiceWorkerPlugin (test_config ''production'' None None None)
     = Inr \<lparr>plugin_config = test_config ''production'' None None None\<rparr>
   \<and> (\<exists>evs opts.
         sw_apply test_externals \<lparr>plugin_config = test_config ''production'' None None None\<rparr> ()
           = Some evs
         \<and> evs = [GenerateSW opts ()]
         \<and> opts ''swDest'' = Some (JStr ''sw.1234.js'')
         \<and> opts ''globDirectory'' = Some (JStr ''path/to/assets'')
         \<and> \<not> list_ex is_write_file evs)"
proof -
  let ?p = "\<lparr>plugin_config = test_config ''production'' None None None\<rparr>"
  have h1: "mode (plugin_config ?p) = JStr ''production''" by simp
  have h2: "injectManifest (plugin_config ?p) \<noteq> Some True" by simp
  from production_generates [OF h1 h2, of test_externals "()"] test_config_constructs
  show ?thesis by (simp add: test_externals_def FAKE_FILE_HASH_def)
qed

text \<open>
  Claim C3. In \<open>development\<close> mode with \<open>enableServiceWorkerDebugging\<close> false (or
  absent), \<open>apply\<close> only prints a warning, which says that no ServiceWorker is emitted
  in development mode: no generation strategy, no manifest injection and no write-file
  plugin is applied.
\<close>

theorem development_emits_nothing:
  assumes "mode (plugin_config p) = JStr ''development''"
    and "enableServiceWorkerDebugging (plugin_config p) \<noteq> Some True"
  shows "\<exists>evs msg. sw_apply ext p compiler = Some evs
          \<and> evs = [ConsoleWarn msg]
          \<and> sublist ''Emitting no ServiceWorker in development mode.'' msg
          \<and> \<not> list_ex is_generate evs
          \<and> \<not> list_ex is_inject evs
          \<and> \<not> list_ex is_write_file evs"
  using assms
  by (intro exI [of _ "[ConsoleWarn dev_warning]"] exI [of _ dev_warning])
     (simp add: sw_apply_def dev_warning_def)

theorem development_emits_nothing_witness:
  "ServiceWorkerPlugin (test_config ''development'' (Some False) None None)
     = Inr \<lparr>plugin_config = test_config ''development'' (Some False) None None\<rparr>
   \<and> (\<exists>evs msg.
         sw_apply test_externals
            \<lparr>plugin_config = test_config ''development'' (Some False) None None\<rparr> ()
           = Some evs
         \<and> evs = [ConsoleWarn msg]
         \<and> sublist ''Emitting no ServiceWorker in development mode.'' msg
         \<and> \<not> list_ex is_generate evs
         \<and> \<not> list_ex is_inject evs
         \<and> \<not> list_ex is_write_file evs)"
proof -
  let ?p = "\<lparr>plugin_config = test_config ''development'' (Some False) None None\<rparr>"
  have h1: "mode (plugin_config ?p) = JStr ''development''" by simp
  have h2: "enableServiceWorkerDebugging (plugin_config ?p) \<noteq> Some True" by simp
  from development_emits_nothing [OF h1 h2, of test_externals "()"] test_config_constructs
  show ?thesis by simp
qed

text \<open>
  Claim C4. In \<open>development\<close> mode with \<open>enableServiceWorkerDebugging\<close> true and
  \<open>injectManifest\<close> not true, \<open>apply\<close> applies \<open>GenerateSW\<close> with the destination
  \<open>sw.<hash>.js\<close> over the configured output directory, and also the write-file plugin,
  whose pattern is that same file name anchored at the end, with \<open>log: true\<close>.
\<close>

theorem development_debugging_generates_and_writes:
  assumes "mode (plugin_config p) = JStr ''development''"
    and "enableServiceWorkerDebugging (plugin_config p) = Some True"
    and "injectManifest (plugin_config p) \<noteq> Some True"
  shows "\<exists>evs opts. sw_apply ext p compiler = Some evs
          \<and> GenerateSW opts compiler \<in> set evs
          \<and> opts ''swDest'' = Some (JStr (''sw.'' @ fileHash ext @ ''.js''))
          \<and> opts ''globDirectory'' = Some (paths_output (plugin_config p))
          \<and> WriteFileWebpackPlugin ((''sw.'' @ fileHash ext @ ''.js'') @ ''$'') True compiler
               \<in> set evs"
  using assms
  by (intro exI [of _ "[GenerateSW (workbox_config ext p) compiler,
          WriteFileWebpackPlugin (serviceWorkerFileName ext @ ''$'') True compiler]"]
        exI [of _ "workbox_config ext p"])
     (simp add: sw_apply_def applyWorkbox_def workbox_config_swDest workbox_config_globDirectory
        serviceWorkerFileName_def)

theorem development_debugging_generates_and_writes_witness:
  "ServiceWorkerPlugin (test_config ''development'' (Some True) None None)
     = Inr \<lparr>plugin_config = test_config ''development'' (Some True) None None\<rparr>
   \<and> (\<exists>evs opts.
         sw_apply test_externals
            \<lparr>plugin_config = test_config ''development'' (Some True) None None\<rparr> ()
           = Some evs
         \<and> GenerateSW opts () \<in> set evs
         \<and> opts ''swDest'' = Some (JStr ''sw.1234.js'')
         \<and> opts ''globDirectory'' = Some (JStr ''path/to/assets'')
         \<and> WriteFileWebpackPlugin ''sw.1234.js$'' True () \<in> set evs)"
proof -
  let ?p = "\<lparr>plugin_config = test_config ''development'' (Some True) None None\<rparr>"
  have h1: "mode (plugin_config ?p) = JStr ''development''" by simp
  have h2: "enableServiceWorkerDebugging (plugin_config ?p) = Some True" by simp
  have h3: "injectManifest (plugin_config ?p) \<noteq> Some True" by simp
  from development_debugging_generates_and_writes [OF h1 h2 h3, of test_externals "()"]
    test_config_constructs
  show ?thesis by (simp add: test_externals_def FAKE_FILE_HASH_def)
qed

end
